theory Spec2Isabelle
  imports Main "HOL-Library.Word"
begin

unbundle bit_operations_syntax

section \<open>folly/lang/Exception.cpp: inspecting a captured exception\<close>

text \<open>
  The file implements \<^verbatim>\<open>exception_ptr_get_type\<close> and \<^verbatim>\<open>exception_ptr_get_object\<close>
  three times, once per C++ runtime (libstdc++, libc++, the Microsoft CRT); the build
  selects one. Each implementation is embedded under its own prefix
  (\<open>glibcxx_\<close>, \<open>libcpp_\<close>, \<open>win32_\<close>).

  Pointers and \<^verbatim>\<open>std::uintptr_t\<close> are machine words of the platform's width \<open>'w\<close>; the
  null pointer is \<open>0\<close>. What the file obtains from the runtime (library calls, compiler
  builtins, the structures of \<^verbatim>\<open>ehdata.h\<close>) is a field of a runtime record. Reading
  through a pointer that addresses no object of the expected type is undefined
  behaviour in C++; the embedding makes it the fault \<open>InvalidAccess\<close>. A failed
  \<^verbatim>\<open>assert\<close> terminates the process: the fault \<open>Abort\<close>.
\<close>

datatype fault = Abort | InvalidAccess

definition load :: "('p \<rightharpoonup> 'a) \<Rightarrow> 'p \<Rightarrow> fault + 'a" where
  "load heap p = (case heap p of None \<Rightarrow> Inl InvalidAccess | Some v \<Rightarrow> Inr v)"

definition index :: "'a list \<Rightarrow> int \<Rightarrow> fault + 'a" where
  "index xs i = (if 0 \<le> i \<and> i < int (length xs) then Inr (xs ! nat i) else Inl InvalidAccess)"


subsection \<open>libstdc++\<close>

text \<open>
  A \<^verbatim>\<open>std::exception_ptr\<close> holds one pointer, the address of the exception object
  (\<^verbatim>\<open>reinterpret_cast<void* const&>(ptr)\<close>); it is null for the empty handle. The runtime
  supplies \<^verbatim>\<open>ptr.__cxa_exception_type()\<close> and the virtual
  \<^verbatim>\<open>target->__do_catch(thr_type, &thr_obj, outer)\<close>, which returns a bool and may rewrite
  \<^verbatim>\<open>thr_obj\<close>: \<open>do_catch target thr_type thr_obj outer\<close> is the pair of the returned
  bool and the value of \<^verbatim>\<open>thr_obj\<close> after the call.
\<close>

record 'p glibcxx_runtime =
  cxa_exception_type :: "'p \<Rightarrow> 'p"
  do_catch :: "'p \<Rightarrow> 'p \<Rightarrow> 'p \<Rightarrow> nat \<Rightarrow> bool \<times> 'p"

definition glibcxx_exception_ptr_get_type ::
  "'w::len word glibcxx_runtime \<Rightarrow> 'w word \<Rightarrow> 'w word" where
  "glibcxx_exception_ptr_get_type rt ptr =
     (if ptr = 0 then 0 else cxa_exception_type rt ptr)"

definition glibcxx_exception_ptr_get_object ::
  "'w::len word glibcxx_runtime \<Rightarrow> 'w word \<Rightarrow> 'w word \<Rightarrow> 'w word" where
  "glibcxx_exception_ptr_get_object rt ptr target =
     (if ptr = 0 then 0
      else
        let object = ptr;
            type = cxa_exception_type rt ptr
        in if target = 0 then object
           else (case do_catch rt target type object 1 of
                   (caught, object') \<Rightarrow> if caught then object' else 0))"


subsection \<open>libc++\<close>

text \<open>
  The handle again holds the address of the exception object. The
  \<^verbatim>\<open>__cxa_exception\<close> header (declared in the file, here in its LP64 shape) lies
  directly before the object: \<^verbatim>\<open>static_cast<__cxa_exception*>(object) - 1\<close> is the
  object's address minus \<^verbatim>\<open>sizeof(__cxa_exception)\<close>. \<open>cxa_exceptions\<close> holds the
  headers that exist in memory, by address. \<open>can_catch starget stype adjustedPtr\<close> is
  \<^verbatim>\<open>starget->can_catch(stype, adjustedPtr)\<close>: the returned bool and the value of the
  reference parameter after the call.
\<close>

record 'p cxa_exception =
  reserve :: "'p"
  referenceCount :: "'p"
  exceptionType :: "'p"
  exceptionDestructor :: "'p"
  unexpectedHandler :: "'p"
  terminateHandler :: "'p"
  nextException :: "'p"
  handlerCount :: int
  handlerSwitchValue :: int
  actionRecord :: "'p"
  languageSpecificData :: "'p"
  catchTemp :: "'p"
  adjustedPtr :: "'p"
  unwindHeader :: "'p list"

record 'p libcpp_runtime =
  sizeof_cxa_exception :: "'p"
  cxa_exceptions :: "'p \<rightharpoonup> 'p cxa_exception"
  can_catch :: "'p \<Rightarrow> 'p \<Rightarrow> 'p \<Rightarrow> bool \<times> 'p"

definition cxxabi_get_object :: "'w word \<Rightarrow> 'w word" where
  "cxxabi_get_object ptr = ptr"

definition libcpp_exception_ptr_get_type ::
  "'w::len word libcpp_runtime \<Rightarrow> 'w word \<Rightarrow> fault + 'w word" where
  "libcpp_exception_ptr_get_type rt ptr =
     (if ptr = 0 then Inr 0
      else
        let object = cxxabi_get_object ptr;
            exception = object - sizeof_cxa_exception rt
        in (case load (cxa_exceptions rt) exception of
              Inl e \<Rightarrow> Inl e
            | Inr ex \<Rightarrow> Inr (exceptionType ex)))"

definition libcpp_exception_ptr_get_object ::
  "'w::len word libcpp_runtime \<Rightarrow> 'w word \<Rightarrow> 'w word \<Rightarrow> fault + 'w word" where
  "libcpp_exception_ptr_get_object rt ptr target =
     (if ptr = 0 then Inr 0
      else
        let object = cxxabi_get_object ptr
        in (case libcpp_exception_ptr_get_type rt ptr of
              Inl e \<Rightarrow> Inl e
            | Inr type \<Rightarrow>
                if target = 0 then Inr object
                else (case can_catch rt target type object of
                        (caught, object') \<Rightarrow> Inr (if caught then object' else 0))))"


subsection \<open>Microsoft CRT\<close>

text \<open>
  The structures of \<^verbatim>\<open>ehdata.h\<close> that the file reads. With
  \<^verbatim>\<open>_EH_RELATIVE_TYPEINFO\<close> the fields \<open>pCatchableTypeArray\<close>,
  \<open>arrayOfCatchableTypes\<close> and \<open>pType\<close> are image-relative offsets, otherwise
  pointers; either way the file adds them to a \<^verbatim>\<open>std::uintptr_t\<close>, so each is kept as
  the word it contributes to that sum. \<open>arrayOfCatchableTypes\<close> is the sequence of
  entries that really follow the count in memory.
\<close>

record PMD =
  mdisp :: int
  pdisp :: int
  vdisp :: int

record 'p CatchableType =
  pType :: "'p"
  thisDisplacement :: PMD

record 'p CatchableTypeArray =
  nCatchableTypes :: int
  arrayOfCatchableTypes :: "'p list"

record 'p ThrowInfo =
  pCatchableTypeArray :: "'p"

record 'p EHParameters =
  pExceptionObject :: "'p"
  pThrowInfo :: "'p"
  pThrowImageBase :: "'p"

record 'p EHExceptionRecord =
  params :: "'p EHParameters"

text \<open>
  The build and the runtime of the Microsoft family:
  \<^item> \<open>NDEBUG\<close>: the build defines \<^verbatim>\<open>NDEBUG\<close>, so \<^verbatim>\<open>assert\<close> expands to nothing;
  \<^item> \<open>EH_RELATIVE_TYPEINFO\<close>: the value of \<^verbatim>\<open>_EH_RELATIVE_TYPEINFO\<close>;
  \<^item> \<open>DecodePointer\<close>, \<open>AdjustPointer\<close>: the functions of those names;
  \<^item> \<open>GetExceptionInfo_int\<close>: the builtin \<^verbatim>\<open>__GetExceptionInfo(0)\<close>;
  \<^item> \<open>make_exception_ptr_int\<close>: the record pointer held by the handle that
    \<^verbatim>\<open>std::make_exception_ptr(0)\<close> returns;
  \<^item> \<open>type_info_eq a b\<close>: \<^verbatim>\<open>std::type_info::operator==\<close> on the objects at \<open>a\<close> and \<open>b\<close>;
  \<^item> the objects in memory, by address and type.
\<close>

record 'p win32_runtime =
  NDEBUG :: bool
  EH_RELATIVE_TYPEINFO :: bool
  DecodePointer :: "'p \<Rightarrow> 'p"
  AdjustPointer :: "'p \<Rightarrow> PMD \<Rightarrow> 'p"
  GetExceptionInfo_int :: "'p"
  make_exception_ptr_int :: "'p"
  type_info_eq :: "'p \<Rightarrow> 'p \<Rightarrow> bool"
  records :: "'p \<rightharpoonup> 'p EHExceptionRecord"
  throw_infos :: "'p \<rightharpoonup> 'p ThrowInfo"
  catchable_type_arrays :: "'p \<rightharpoonup> 'p CatchableTypeArray"
  catchable_types :: "'p \<rightharpoonup> 'p CatchableType"

definition win32_decode_pointer :: "'w word win32_runtime \<Rightarrow> 'w word \<Rightarrow> 'w word" where
  "win32_decode_pointer rt ptr = DecodePointer rt ptr"

text \<open>
  The handle is read as a \<^verbatim>\<open>std::shared_ptr<EHExceptionRecord>\<close>; it is modelled by
  the pointer that \<^verbatim>\<open>get()\<close> returns.
\<close>

definition win32_get_record :: "'w word \<Rightarrow> 'w word" where
  "win32_get_record ptr = ptr"

text \<open>
  Lines 195 to 205 of \<^verbatim>\<open>win32_eptr_throw_info_ptr_is_encoded\<close>: the detection itself,
  up to and including the \<^verbatim>\<open>assert\<close>. It reads no mutable state.
\<close>

definition win32_detect :: "'w::len word win32_runtime \<Rightarrow> fault + int" where
  "win32_detect rt =
     (let info = GetExceptionInfo_int rt;
          ptr = make_exception_ptr_int rt;
          rec = win32_get_record ptr
      in (case load (records rt) rec of
            Inl e \<Rightarrow> Inl e
          | Inr r \<Rightarrow>
              let value0 = (0::int);
                  value1 = (if info = pThrowInfo (params r) then - 1 else value0);
                  value2 = (if info = win32_decode_pointer rt (pThrowInfo (params r))
                            then 1 else value1)
              in if \<not> NDEBUG rt \<and> value2 = 0 then Inl Abort else Inr value2))"

text \<open>
  The function with its static \<^verbatim>\<open>std::atomic<int> cache\<close> passed in and out
  (0 uninit, -1 false, 1 true).
\<close>

definition win32_eptr_throw_info_ptr_is_encoded ::
  "'w::len word win32_runtime \<Rightarrow> int \<Rightarrow> fault + (bool \<times> int)" where
  "win32_eptr_throw_info_ptr_is_encoded rt cache =
     (let value = cache
      in if value \<noteq> 0 then Inr (value > 0, cache)
         else (case win32_detect rt of
                 Inl e \<Rightarrow> Inl e
               | Inr value \<Rightarrow> Inr (value > 0, value)))"

definition win32_throw_info ::
  "'w::len word win32_runtime \<Rightarrow> int \<Rightarrow> 'w word \<Rightarrow> fault + ('w word \<times> int)" where
  "win32_throw_info rt cache rec =
     (case win32_eptr_throw_info_ptr_is_encoded rt cache of
        Inl e \<Rightarrow> Inl e
      | Inr (encoded, cache') \<Rightarrow>
          (case load (records rt) rec of
             Inl e \<Rightarrow> Inl e
           | Inr r \<Rightarrow>
               let info = pThrowInfo (params r)
               in Inr (if encoded then win32_decode_pointer rt info else info, cache')))"

definition win32_throw_image_base ::
  "'w::len word win32_runtime \<Rightarrow> 'w word \<Rightarrow> fault + 'w word" where
  "win32_throw_image_base rt rec =
     (if EH_RELATIVE_TYPEINFO rt
      then (case load (records rt) rec of
              Inl e \<Rightarrow> Inl e
            | Inr r \<Rightarrow> Inr (pThrowImageBase (params r)))
      else Inr 0)"

definition win32_exception_ptr_get_type ::
  "'w::len word win32_runtime \<Rightarrow> int \<Rightarrow> 'w word \<Rightarrow> fault + ('w word \<times> int)" where
  "win32_exception_ptr_get_type rt cache ptr =
     (let rec = win32_get_record ptr
      in if rec = 0 then Inr (0, cache)
         else (case win32_throw_image_base rt rec of
            Inl e \<Rightarrow> Inl e
          | Inr base \<Rightarrow>
         (case win32_throw_info rt cache rec of
            Inl e \<Rightarrow> Inl e
          | Inr (info, cache') \<Rightarrow>
         (case load (throw_infos rt) info of
            Inl e \<Rightarrow> Inl e
          | Inr ti \<Rightarrow>
         (case load (catchable_type_arrays rt) (base + pCatchableTypeArray ti) of
            Inl e \<Rightarrow> Inl e
          | Inr cta \<Rightarrow>
         (case index (arrayOfCatchableTypes cta) 0 of
            Inl e \<Rightarrow> Inl e
          | Inr off \<Rightarrow>
         (case load (catchable_types rt) (base + off) of
            Inl e \<Rightarrow> Inl e
          | Inr ct \<Rightarrow> Inr (base + pType ct, cache'))))))))"

text \<open>
  The \<^verbatim>\<open>for\<close> loop of \<^verbatim>\<open>exception_ptr_get_object\<close>, from index \<open>i\<close> on; the value is
  what the function returns.
\<close>

function win32_scan ::
  "'w::len word win32_runtime \<Rightarrow> 'w word \<Rightarrow> 'w word CatchableTypeArray \<Rightarrow> 'w word \<Rightarrow> 'w word \<Rightarrow> int
     \<Rightarrow> fault + 'w word" where
  "win32_scan rt base cta target object i =
     (if i < nCatchableTypes cta
      then (case index (arrayOfCatchableTypes cta) i of
              Inl e \<Rightarrow> Inl e
            | Inr off \<Rightarrow>
                (case load (catchable_types rt) (base + off) of
                   Inl e \<Rightarrow> Inl e
                 | Inr ct \<Rightarrow>
                     if type_info_eq rt target (base + pType ct)
                     then Inr (AdjustPointer rt object (thisDisplacement ct))
                     else win32_scan rt base cta target object (i + 1)))
      else Inr 0)"
  by pat_completeness auto
termination
  by (relation "measure (\<lambda>(rt, base, cta, target, object, i). nat (nCatchableTypes cta - i))")
     auto

definition win32_exception_ptr_get_object ::
  "'w::len word win32_runtime \<Rightarrow> int \<Rightarrow> 'w word \<Rightarrow> 'w word \<Rightarrow> fault + ('w word \<times> int)" where
  "win32_exception_ptr_get_object rt cache ptr target =
     (let rec = win32_get_record ptr
      in if rec = 0 then Inr (0, cache)
         else (case load (records rt) rec of
            Inl e \<Rightarrow> Inl e
          | Inr r \<Rightarrow>
         let object = pExceptionObject (params r)
         in if target = 0 then Inr (object, cache)
         else (case win32_throw_image_base rt rec of
            Inl e \<Rightarrow> Inl e
          | Inr base \<Rightarrow>
         (case win32_throw_info rt cache rec of
            Inl e \<Rightarrow> Inl e
          | Inr (info, cache') \<Rightarrow>
         (case load (throw_infos rt) info of
            Inl e \<Rightarrow> Inl e
          | Inr ti \<Rightarrow>
         (case load (catchable_type_arrays rt) (base + pCatchableTypeArray ti) of
            Inl e \<Rightarrow> Inl e
          | Inr cta \<Rightarrow>
         (case win32_scan rt base cta target object 0 of
            Inl e \<Rightarrow> Inl e
          | Inr p \<Rightarrow> Inr (p, cache'))))))))"


subsection \<open>Concrete runtimes\<close>

text \<open>
  Small runtimes on 64-bit words, used to run the definitions. In each the type
  \<open>Child\<close> (descriptor at \<open>0x500\<close>, or at image offset \<open>0x600\<close>) derives from \<open>Parent\<close>
  (descriptor at \<open>0x400\<close>, or offset \<open>0x700\<close>), whose subobject lies 8 bytes into a
  \<open>Child\<close>; handle \<open>0x1000\<close> carries a \<open>Child\<close>.
\<close>

definition ex_glibcxx :: "64 word glibcxx_runtime" where
  "ex_glibcxx =
     \<lparr> cxa_exception_type = (\<lambda>p. if p = 0x1000 then 0x500 else 0),
       do_catch = (\<lambda>target thr_type thr_obj outer.
          if target = thr_type then (True, thr_obj)
          else if target = 0x400 \<and> thr_type = 0x500 then (True, thr_obj + 8)
          else (False, thr_obj)) \<rparr>"

definition ex_header :: "64 word cxa_exception" where
  "ex_header =
     \<lparr> reserve = 0, referenceCount = 1, exceptionType = 0x500, exceptionDestructor = 0,
       unexpectedHandler = 0, terminateHandler = 0, nextException = 0, handlerCount = 0,
       handlerSwitchValue = 0, actionRecord = 0, languageSpecificData = 0, catchTemp = 0,
       adjustedPtr = 0, unwindHeader = [] \<rparr>"

definition ex_libcpp :: "64 word libcpp_runtime" where
  "ex_libcpp =
     \<lparr> sizeof_cxa_exception = 128,
       cxa_exceptions = [0xF80 \<mapsto> ex_header],
       can_catch = (\<lambda>starget stype obj.
          if starget = stype then (True, obj)
          else if starget = 0x400 \<and> stype = 0x500 then (True, obj + 8)
          else (False, obj)) \<rparr>"

text \<open>
  The Microsoft runtime is built from: whether \<^verbatim>\<open>NDEBUG\<close> is defined; the cookie that
  \<open>DecodePointer\<close> combines with its argument; the throw-info pointer stored in the
  record of the \<^verbatim>\<open>int\<close> sentinel (at \<open>0x9000\<close>); the throw-info pointer stored in the
  record of the \<open>Child\<close> error (at \<open>0x1000\<close>). The compiler's throw-info for \<^verbatim>\<open>int\<close> is at
  \<open>0x7000\<close>, the one for \<open>Child\<close> at \<open>0x7100\<close>, the image base is \<open>0x10000\<close>.
\<close>

definition ex_record :: "64 word \<Rightarrow> 64 word \<Rightarrow> 64 word EHExceptionRecord" where
  "ex_record object info =
     \<lparr> params = \<lparr> pExceptionObject = object, pThrowInfo = info, pThrowImageBase = 0x10000 \<rparr> \<rparr>"

definition ex_win32 :: "bool \<Rightarrow> 64 word \<Rightarrow> 64 word \<Rightarrow> 64 word \<Rightarrow> 64 word win32_runtime" where
  "ex_win32 ndebug cookie sentinel_info child_info =
     \<lparr> NDEBUG = ndebug,
       EH_RELATIVE_TYPEINFO = True,
       DecodePointer = (\<lambda>p. p XOR cookie),
       AdjustPointer = (\<lambda>p pmd. p + word_of_int (mdisp pmd)),
       GetExceptionInfo_int = 0x7000,
       make_exception_ptr_int = 0x9000,
       type_info_eq = (\<lambda>a b. a = b),
       records = [0x9000 \<mapsto> ex_record 0x9100 sentinel_info,
                  0x1000 \<mapsto> ex_record 0x2000 child_info],
       throw_infos = [0x7000 \<mapsto> \<lparr> pCatchableTypeArray = 0x180 \<rparr>,
                      0x7100 \<mapsto> \<lparr> pCatchableTypeArray = 0x100 \<rparr>],
       catchable_type_arrays =
         [0x10180 \<mapsto> \<lparr> nCatchableTypes = 1, arrayOfCatchableTypes = [0x280] \<rparr>,
          0x10100 \<mapsto> \<lparr> nCatchableTypes = 2, arrayOfCatchableTypes = [0x200, 0x300] \<rparr>],
       catchable_types =
         [0x10280 \<mapsto> \<lparr> pType = 0x680,
                        thisDisplacement = \<lparr> mdisp = 0, pdisp = - 1, vdisp = 0 \<rparr> \<rparr>,
          0x10200 \<mapsto> \<lparr> pType = 0x600,
                        thisDisplacement = \<lparr> mdisp = 0, pdisp = - 1, vdisp = 0 \<rparr> \<rparr>,
          0x10300 \<mapsto> \<lparr> pType = 0x700,
                        thisDisplacement = \<lparr> mdisp = 8, pdisp = - 1, vdisp = 0 \<rparr> \<rparr>] \<rparr>"


subsection \<open>The scan as the specification words it\<close>

text \<open>
  Section 4.6 of the specification: scan the ordered list of catchable-type entries; at
  the first entry whose type descriptor matches the target, apply that entry's
  displacement to the payload pointer; no matching entry gives null.
\<close>

definition spec_scan ::
  "'w::len word win32_runtime \<Rightarrow> 'w word \<Rightarrow> 'w word CatchableType list \<Rightarrow> 'w word \<Rightarrow> 'w word
     \<Rightarrow> 'w word" where
  "spec_scan rt base entries target object =
     (case find (\<lambda>ct. type_info_eq rt target (base + pType ct)) entries of
        None \<Rightarrow> 0
      | Some ct \<Rightarrow> AdjustPointer rt object (thisDisplacement ct))"


subsection \<open>Sequences of calls\<close>

text \<open>
  A program calls the two operations again and again. For the Microsoft decoder each
  call hands the cache it leaves to the next call; a fault ends the sequence.
\<close>

datatype 'p call = GetType 'p | GetObject 'p 'p

fun glibcxx_call :: "'w::len word glibcxx_runtime \<Rightarrow> 'w word call \<Rightarrow> 'w word" where
  "glibcxx_call rt (GetType ptr) = glibcxx_exception_ptr_get_type rt ptr"
| "glibcxx_call rt (GetObject ptr target) = glibcxx_exception_ptr_get_object rt ptr target"

fun libcpp_call :: "'w::len word libcpp_runtime \<Rightarrow> 'w word call \<Rightarrow> fault + 'w word" where
  "libcpp_call rt (GetType ptr) = libcpp_exception_ptr_get_type rt ptr"
| "libcpp_call rt (GetObject ptr target) = libcpp_exception_ptr_get_object rt ptr target"

fun win32_call ::
  "'w::len word win32_runtime \<Rightarrow> int \<Rightarrow> 'w word call \<Rightarrow> fault + ('w word \<times> int)" where
  "win32_call rt cache (GetType ptr) = win32_exception_ptr_get_type rt cache ptr"
| "win32_call rt cache (GetObject ptr target) =
     win32_exception_ptr_get_object rt cache ptr target"

fun glibcxx_calls :: "'w::len word glibcxx_runtime \<Rightarrow> 'w word call list \<Rightarrow> 'w word list" where
  "glibcxx_calls rt [] = []"
| "glibcxx_calls rt (c # cs) = glibcxx_call rt c # glibcxx_calls rt cs"

fun libcpp_calls ::
  "'w::len word libcpp_runtime \<Rightarrow> 'w word call list \<Rightarrow> fault + 'w word list" where
  "libcpp_calls rt [] = Inr []"
| "libcpp_calls rt (c # cs) =
     (case libcpp_call rt c of
        Inl e \<Rightarrow> Inl e
      | Inr r \<Rightarrow> (case libcpp_calls rt cs of Inl e \<Rightarrow> Inl e | Inr rs \<Rightarrow> Inr (r # rs)))"

fun win32_calls ::
  "'w::len word win32_runtime \<Rightarrow> int \<Rightarrow> 'w word call list \<Rightarrow> fault + ('w word list \<times> int)" where
  "win32_calls rt cache [] = Inr ([], cache)"
| "win32_calls rt cache (c # cs) =
     (case win32_call rt cache c of
        Inl e \<Rightarrow> Inl e
      | Inr (r, cache') \<Rightarrow>
          (case win32_calls rt cache' cs of
             Inl e \<Rightarrow> Inl e
           | Inr (rs, cache'') \<Rightarrow> Inr (r # rs, cache'')))"

text \<open>What a call of the Microsoft decoder hands back to its caller.\<close>

fun returned :: "fault + ('a \<times> int) \<Rightarrow> fault + 'a" where
  "returned (Inl e) = Inl e"
| "returned (Inr (v, cache)) = Inr v"

text \<open>
  \<open>later rt c1 c2\<close>: the cache value \<open>c2\<close> can follow \<open>c1\<close>. Either nothing was
  stored, or the cache was uninitialised and the detected value was stored.
\<close>

definition later :: "'w::len word win32_runtime \<Rightarrow> int \<Rightarrow> int \<Rightarrow> bool" where
  "later rt c1 c2 = (c2 = c1 \<or> (c1 = 0 \<and> win32_detect rt = Inr c2))"


subsection \<open>Threads in the probe\<close>

text \<open>
  \<^verbatim>\<open>win32_eptr_throw_info_ptr_is_encoded\<close> touches the shared cache twice, in a relaxed
  load and a relaxed store; between them it works on values of its own. A thread in
  the function is therefore at one of these points:
  \<^item> \<open>Idle\<close>: about to call the function (next: the load and its test);
  \<^item> \<open>Detecting\<close>: it loaded 0 (next: lines 195 to 205);
  \<^item> \<open>Storing value\<close>: it computed \<open>value\<close> (next: the store and the return);
  \<^item> \<open>Returned b\<close>: the call returned \<open>b\<close> (next: the thread calls again);
  \<^item> \<open>Faulted e\<close>: the assertion failed or the read was invalid.
  \<open>thread_step\<close> is the next step of one thread on the shared cache. The cache is
  one atomic object, whose loads and stores are totally ordered, so the threads of a
  process interleave these steps: \<open>sys_step rt i\<close> lets thread \<open>i\<close> take its step,
  and \<open>run\<close> follows a schedule, the list of the threads that step in turn. After a
  fault the process does not go on.
\<close>

datatype thread = Idle | Detecting | Storing int | Returned bool | Faulted fault

fun thread_step :: "'w::len word win32_runtime \<Rightarrow> int \<times> thread \<Rightarrow> int \<times> thread" where
  "thread_step rt (cache, Idle) =
     (if cache \<noteq> 0 then (cache, Returned (cache > 0)) else (cache, Detecting))"
| "thread_step rt (cache, Detecting) =
     (case win32_detect rt of
        Inl e \<Rightarrow> (cache, Faulted e)
      | Inr value \<Rightarrow> (cache, Storing value))"
| "thread_step rt (cache, Storing value) = (value, Returned (value > 0))"
| "thread_step rt (cache, Returned b) = (cache, Idle)"
| "thread_step rt (cache, Faulted e) = (cache, Faulted e)"

fun is_Faulted :: "thread \<Rightarrow> bool" where
  "is_Faulted (Faulted e) = True"
| "is_Faulted t = False"

definition sys_step ::
  "'w::len word win32_runtime \<Rightarrow> nat \<Rightarrow> int \<times> thread list \<Rightarrow> int \<times> thread list" where
  "sys_step rt i s =
     (case s of (cache, ts) \<Rightarrow>
        if i < length ts \<and> \<not> list_ex is_Faulted ts
        then (case thread_step rt (cache, ts ! i) of (cache', t') \<Rightarrow> (cache', ts[i := t']))
        else s)"

definition run ::
  "'w::len word win32_runtime \<Rightarrow> nat list \<Rightarrow> int \<times> thread list \<Rightarrow> int \<times> thread list" where
  "run rt sched s = fold (sys_step rt) sched s"

text \<open>
  The invariant of the interleaving: the cache is uninitialised or holds the detected
  value; a thread about to store holds the detected value; a thread that returned,
  returned the detected value's sign; a thread faulted only if the detection faults.
\<close>

fun thread_ok :: "'w::len word win32_runtime \<Rightarrow> thread \<Rightarrow> bool" where
  "thread_ok rt (Storing v) = (win32_detect rt = Inr v)"
| "thread_ok rt (Returned b) =
     (case win32_detect rt of Inl e \<Rightarrow> False | Inr v \<Rightarrow> b = (v > 0))"
| "thread_ok rt (Faulted e) = (win32_detect rt = Inl e)"
| "thread_ok rt t = True"

definition sys_inv :: "'w::len word win32_runtime \<Rightarrow> int \<times> thread list \<Rightarrow> bool" where
  "sys_inv rt s =
     ((fst s = 0 \<or> win32_detect rt = Inr (fst s)) \<and> list_all (thread_ok rt) (snd s))"


section \<open>Evaluation and helper facts\<close>

lemmas ex_win32_eval =
  ex_win32_def ex_record_def win32_get_record_def win32_decode_pointer_def load_def index_def
  win32_detect_def win32_eptr_throw_info_ptr_is_encoded_def win32_throw_info_def
  win32_throw_image_base_def

lemma glibcxx_get_type_null_iff:
  "(ptr \<noteq> 0 \<longrightarrow> cxa_exception_type rt ptr \<noteq> 0) \<Longrightarrow>
   glibcxx_exception_ptr_get_type rt ptr = 0 \<longleftrightarrow> ptr = 0"
  by (simp add: glibcxx_exception_ptr_get_type_def)

lemma libcpp_get_type_null_iff:
  "(\<forall>ex. cxa_exceptions rt (ptr - sizeof_cxa_exception rt) = Some ex \<longrightarrow> exceptionType ex \<noteq> 0) \<Longrightarrow>
   libcpp_exception_ptr_get_type rt ptr = Inr 0 \<longleftrightarrow> ptr = 0"
  by (auto simp: libcpp_exception_ptr_get_type_def cxxabi_get_object_def load_def Let_def
           split: option.splits)

lemma win32_get_type_null_iff:
  assumes "\<forall>r a ct. records rt ptr = Some r \<longrightarrow> catchable_types rt a = Some ct \<longrightarrow>
             (if EH_RELATIVE_TYPEINFO rt then pThrowImageBase (params r) else 0) + pType ct \<noteq> 0"
  shows "(\<exists>cache'. win32_exception_ptr_get_type rt cache ptr = Inr (0, cache')) \<longleftrightarrow> ptr = 0"
proof
  assume "ptr = 0"
  then show "\<exists>cache'. win32_exception_ptr_get_type rt cache ptr = Inr (0, cache')"
    by (simp add: win32_exception_ptr_get_type_def win32_get_record_def)
next
  assume "\<exists>cache'. win32_exception_ptr_get_type rt cache ptr = Inr (0, cache')"
  then obtain cache' where r: "win32_exception_ptr_get_type rt cache ptr = Inr (0, cache')" ..
  show "ptr = 0"
  proof (rule ccontr)
    assume nz: "ptr \<noteq> 0"
    from r nz assms show False
      by (auto simp: win32_exception_ptr_get_type_def win32_get_record_def
            win32_throw_image_base_def win32_throw_info_def load_def Let_def
          split: sum.splits option.splits if_splits prod.splits)
  qed
qed

lemma ex_win32_descriptors:
  "\<forall>r a ct. records (ex_win32 n c s i) p = Some r \<longrightarrow>
     catchable_types (ex_win32 n c s i) a = Some ct \<longrightarrow>
     (if EH_RELATIVE_TYPEINFO (ex_win32 n c s i) then pThrowImageBase (params r) else 0)
       + pType ct \<noteq> 0"
  by (auto simp: ex_win32_def ex_record_def split: if_splits)

lemma probe_cached:
  "cache \<noteq> 0 \<Longrightarrow> win32_eptr_throw_info_ptr_is_encoded rt cache = Inr (cache > 0, cache)"
  by (simp add: win32_eptr_throw_info_ptr_is_encoded_def)

lemma probe_uninit:
  "win32_eptr_throw_info_ptr_is_encoded rt 0 =
     (case win32_detect rt of Inl e \<Rightarrow> Inl e | Inr v \<Rightarrow> Inr (v > 0, v))"
  by (simp add: win32_eptr_throw_info_ptr_is_encoded_def)

lemma detect_value:
  assumes "records rt (make_exception_ptr_int rt) = Some r"
  shows "win32_detect rt =
     (let plain = (GetExceptionInfo_int rt = pThrowInfo (params r));
          encoded = (GetExceptionInfo_int rt = DecodePointer rt (pThrowInfo (params r)));
          v = (if encoded then 1 else if plain then - 1 else 0)
      in if \<not> NDEBUG rt \<and> v = 0 then Inl Abort else Inr v)"
  using assms
  by (simp add: win32_detect_def win32_get_record_def win32_decode_pointer_def load_def Let_def)

lemma win32_throw_info_eq:
  assumes "win32_eptr_throw_info_ptr_is_encoded rt cache = Inr (encoded, cache')"
    and "records rt rec = Some r"
  shows "win32_throw_info rt cache rec =
           Inr (if encoded then DecodePointer rt (pThrowInfo (params r))
                else pThrowInfo (params r), cache')"
  using assms by (simp add: win32_throw_info_def load_def win32_decode_pointer_def)

lemma win32_throw_image_base_eq:
  assumes "records rt rec = Some r"
  shows "win32_throw_image_base rt rec =
           Inr (if EH_RELATIVE_TYPEINFO rt then pThrowImageBase (params r) else 0)"
  using assms by (simp add: win32_throw_image_base_def load_def)


section \<open>The loop against the specification's scan\<close>

text \<open>
  When the array holds at least \<open>nCatchableTypes\<close> entries and each of them addresses a
  \<open>CatchableType\<close>, the loop started at index \<open>i\<close> returns what the specification's scan
  returns on the entries from \<open>i\<close> on.
\<close>

lemma win32_scan_from:
  assumes "length entries = nat (nCatchableTypes cta)"
    and "nCatchableTypes cta \<le> int (length (arrayOfCatchableTypes cta))"
    and "\<And>j. j < nat (nCatchableTypes cta) \<Longrightarrow>
           catchable_types rt (base + arrayOfCatchableTypes cta ! j) = Some (entries ! j)"
    and "0 \<le> i"
  shows "win32_scan rt base cta target object i =
           Inr (spec_scan rt base (drop (nat i) entries) target object)"
  using assms
proof (induction rt base cta target object i rule: win32_scan.induct)
  case (1 rt base cta target object i)
  show ?case
  proof (cases "i < nCatchableTypes cta")
    case False
    with "1.prems" have "drop (nat i) entries = []" by simp
    with False show ?thesis
      by (subst win32_scan.simps) (simp add: spec_scan_def)
  next
    case True
    with "1.prems" have lt: "nat i < length entries" "nat i < nat (nCatchableTypes cta)"
      by simp_all
    have idx: "index (arrayOfCatchableTypes cta) i = Inr (arrayOfCatchableTypes cta ! nat i)"
      using True "1.prems" by (simp add: index_def)
    have ld: "load (catchable_types rt) (base + arrayOfCatchableTypes cta ! nat i)
                = Inr (entries ! nat i)"
      using "1.prems"(3) [OF lt(2)] by (simp add: load_def)
    have dr: "drop (nat i) entries = entries ! nat i # drop (nat (i + 1)) entries"
      using lt(1) "1.prems"(4) by (simp add: Cons_nth_drop_Suc nat_add_distrib)
    show ?thesis
    proof (cases "type_info_eq rt target (base + pType (entries ! nat i))")
      case True
      with \<open>i < nCatchableTypes cta\<close> idx ld dr show ?thesis
        by (subst win32_scan.simps) (simp add: spec_scan_def)
    next
      case False
      have "win32_scan rt base cta target object (i + 1) =
              Inr (spec_scan rt base (drop (nat (i + 1)) entries) target object)"
        using "1.IH" [OF \<open>i < nCatchableTypes cta\<close> idx ld False] "1.prems" by simp
      with False \<open>i < nCatchableTypes cta\<close> idx ld dr show ?thesis
        by (subst win32_scan.simps) (simp add: spec_scan_def)
    qed
  qed
qed

lemma win32_scan_all:
  assumes "nCatchableTypes cta \<le> int (length (arrayOfCatchableTypes cta))"
    and "map (\<lambda>off. catchable_types rt (base + off))
           (take (nat (nCatchableTypes cta)) (arrayOfCatchableTypes cta)) = map Some entries"
  shows "win32_scan rt base cta target object 0 = Inr (spec_scan rt base entries target object)"
proof -
  from assms(2)
  have "length (take (nat (nCatchableTypes cta)) (arrayOfCatchableTypes cta)) = length entries"
    by (metis length_map)
  with assms(1) have len: "length entries = nat (nCatchableTypes cta)" by simp
  have nth: "catchable_types rt (base + arrayOfCatchableTypes cta ! j) = Some (entries ! j)"
    if "j < nat (nCatchableTypes cta)" for j
  proof -
    from that assms(1)
    have j: "j < length (take (nat (nCatchableTypes cta)) (arrayOfCatchableTypes cta))"
      by simp
    have "map (\<lambda>off. catchable_types rt (base + off))
            (take (nat (nCatchableTypes cta)) (arrayOfCatchableTypes cta)) ! j
          = map Some entries ! j"
      by (simp only: assms(2))
    with j that len show ?thesis by simp
  qed
  show ?thesis
    using win32_scan_from [OF len assms(1) nth, of 0] by simp
qed


section \<open>The cache over a sequence of calls\<close>

text \<open>
  A call moves the cache to a later value, and what a call returns is the same from a
  later cache value: the probe's answer from the stored value is the answer it
  computed when it stored it.
\<close>

lemma probe_later_eq:
  "later rt c1 c2 \<Longrightarrow>
   win32_eptr_throw_info_ptr_is_encoded rt c2 = win32_eptr_throw_info_ptr_is_encoded rt c1"
  by (auto simp: later_def win32_eptr_throw_info_ptr_is_encoded_def Let_def)

lemma probe_moves_later:
  "win32_eptr_throw_info_ptr_is_encoded rt c = Inr (b, c') \<Longrightarrow> later rt c c'"
  by (auto simp: later_def win32_eptr_throw_info_ptr_is_encoded_def Let_def
      split: if_splits sum.splits)

lemma throw_info_later_eq:
  "later rt c1 c2 \<Longrightarrow> win32_throw_info rt c2 rec = win32_throw_info rt c1 rec"
  by (simp add: win32_throw_info_def probe_later_eq)

lemma throw_info_moves_later:
  "win32_throw_info rt c rec = Inr (info, c') \<Longrightarrow> later rt c c'"
  by (auto simp: win32_throw_info_def Let_def split: sum.splits prod.splits
      dest: probe_moves_later)

lemma later_refl: "later rt c c"
  by (simp add: later_def)

lemma call_moves_later:
  "win32_call rt c call = Inr (r, c') \<Longrightarrow> later rt c c'"
proof (cases call)
  case (GetType ptr)
  assume "win32_call rt c call = Inr (r, c')"
  with GetType show ?thesis
    by (auto simp: win32_exception_ptr_get_type_def Let_def later_refl
        split: if_splits sum.splits prod.splits dest: throw_info_moves_later)
next
  case (GetObject ptr target)
  assume "win32_call rt c call = Inr (r, c')"
  with GetObject show ?thesis
    by (auto simp: win32_exception_ptr_get_object_def Let_def later_refl
        simp del: win32_scan.simps
        split: if_splits sum.splits prod.splits dest: throw_info_moves_later)
qed

lemma call_later_value:
  assumes "later rt c1 c2"
  shows "returned (win32_call rt c2 call) = returned (win32_call rt c1 call)"
proof (cases call)
  case (GetType ptr)
  then show ?thesis
    by (simp add: win32_exception_ptr_get_type_def Let_def throw_info_later_eq [OF assms]
        split: sum.splits)
next
  case (GetObject ptr target)
  then show ?thesis
    by (simp add: win32_exception_ptr_get_object_def Let_def throw_info_later_eq [OF assms]
        del: win32_scan.simps split: sum.splits)
qed

lemma win32_calls_results:
  "win32_calls rt c calls = Inr (results, c') \<Longrightarrow>
   length results = length calls \<and>
   (\<forall>i < length calls. returned (win32_call rt c (calls ! i)) = Inr (results ! i))"
proof (induction calls arbitrary: c results)
  case Nil
  then show ?case by simp
next
  case (Cons x xs)
  from Cons.prems obtain r c1 rs where
    x: "win32_call rt c x = Inr (r, c1)" and xs: "win32_calls rt c1 xs = Inr (rs, c')"
    and res: "results = r # rs"
    by (auto split: sum.splits prod.splits)
  from Cons.IH [OF xs] have len: "length rs = length xs"
    and rest: "\<And>k. k < length xs \<Longrightarrow> returned (win32_call rt c1 (xs ! k)) = Inr (rs ! k)"
    by blast+
  have l: "later rt c c1" by (rule call_moves_later [OF x])
  have "returned (win32_call rt c ((x # xs) ! i)) = Inr (results ! i)"
    if "i < length (x # xs)" for i
  proof (cases i)
    case 0
    with x res show ?thesis by simp
  next
    case (Suc k)
    with that have "k < length xs" by simp
    from rest [OF this] call_later_value [OF l, of "xs ! k"] Suc res show ?thesis by simp
  qed
  with len res show ?case by auto
qed

lemma libcpp_calls_results:
  "libcpp_calls rt calls = Inr results \<Longrightarrow>
   length results = length calls \<and> (\<forall>i < length calls. libcpp_call rt (calls ! i) = Inr (results ! i))"
proof (induction calls arbitrary: results)
  case Nil
  then show ?case by simp
next
  case (Cons x xs)
  from Cons.prems obtain r rs where
    x: "libcpp_call rt x = Inr r" and xs: "libcpp_calls rt xs = Inr rs" and res: "results = r # rs"
    by (auto split: sum.splits)
  from Cons.IH [OF xs] x res show ?case
    by (auto simp: nth_Cons split: nat.splits)
qed

lemma glibcxx_calls_results:
  "length (glibcxx_calls rt calls) = length calls \<and>
   (\<forall>i < length calls. glibcxx_calls rt calls ! i = glibcxx_call rt (calls ! i))"
  by (induction calls) (auto simp: nth_Cons split: nat.splits)

lemma later_trans: "later rt c1 c2 \<Longrightarrow> later rt c2 c3 \<Longrightarrow> later rt c1 c3"
  by (auto simp: later_def)

lemma calls_move_later:
  "win32_calls rt c calls = Inr (results, c') \<Longrightarrow> later rt c c'"
proof (induction calls arbitrary: c results)
  case Nil
  then show ?case by (simp add: later_refl)
next
  case (Cons x xs)
  from Cons.prems obtain r c1 rs where
    x: "win32_call rt c x = Inr (r, c1)" and xs: "win32_calls rt c1 xs = Inr (rs, c')"
    by (auto split: sum.splits prod.splits)
  from call_moves_later [OF x] Cons.IH [OF xs] show ?case by (rule later_trans)
qed


section \<open>The interleaving keeps its invariant\<close>

text \<open>
  Alone, a thread's steps are the function: with the cache set one step returns; with
  the cache uninitialised three steps detect, store and return, or two steps fault.
\<close>

lemma thread_alone:
  "c \<noteq> 0 \<Longrightarrow>
     thread_step rt (c, Idle) = (c', Returned b)
       \<longleftrightarrow> win32_eptr_throw_info_ptr_is_encoded rt c = Inr (b, c')"
  "thread_step rt (thread_step rt (thread_step rt (0, Idle))) = (c', Returned b)
     \<longleftrightarrow> win32_eptr_throw_info_ptr_is_encoded rt 0 = Inr (b, c')"
  "thread_step rt (thread_step rt (0, Idle)) = (0, Faulted e)
     \<longleftrightarrow> win32_eptr_throw_info_ptr_is_encoded rt 0 = Inl e"
  by (auto simp: win32_eptr_throw_info_ptr_is_encoded_def Let_def split: sum.splits)

lemma thread_step_inv:
  assumes "c = 0 \<or> win32_detect rt = Inr c" and "thread_ok rt t"
    and "thread_step rt (c, t) = (c', t')"
  shows "(c' = 0 \<or> win32_detect rt = Inr c') \<and> thread_ok rt t' \<and> (c \<noteq> 0 \<longrightarrow> c' = c)"
  using assms by (cases t) (auto split: sum.splits if_splits)

lemma sys_step_inv:
  assumes "sys_inv rt s"
  shows "sys_inv rt (sys_step rt i s) \<and> (fst s \<noteq> 0 \<longrightarrow> fst (sys_step rt i s) = fst s)"
proof (cases s)
  case (Pair c ts)
  show ?thesis
  proof (cases "i < length ts \<and> \<not> list_ex is_Faulted ts")
    case False
    with Pair assms show ?thesis by (auto simp: sys_step_def)
  next
    case True
    obtain c' t' where st: "thread_step rt (c, ts ! i) = (c', t')" by (cases "thread_step rt (c, ts ! i)")
    from assms Pair True have ok: "thread_ok rt (ts ! i)" and c: "c = 0 \<or> win32_detect rt = Inr c"
      and all: "list_all (thread_ok rt) ts"
      by (auto simp: sys_inv_def list_all_length)
    from thread_step_inv [OF c ok st]
    have c': "c' = 0 \<or> win32_detect rt = Inr c'" and t': "thread_ok rt t'" and keep: "c \<noteq> 0 \<longrightarrow> c' = c"
      by simp_all
    have "list_all (thread_ok rt) (ts[i := t'])"
      using all t' True by (auto simp: list_all_length nth_list_update)
    with c' keep Pair True st show ?thesis
      by (simp add: sys_step_def sys_inv_def)
  qed
qed

lemma run_inv:
  "sys_inv rt s \<Longrightarrow> sys_inv rt (run rt sched s) \<and> (fst s \<noteq> 0 \<longrightarrow> fst (run rt sched s) = fst s)"
proof (induction sched arbitrary: s)
  case Nil
  then show ?case by (simp add: run_def)
next
  case (Cons i sched)
  from sys_step_inv [OF Cons.prems, of i]
  have a: "sys_inv rt (sys_step rt i s)" and b: "fst s \<noteq> 0 \<longrightarrow> fst (sys_step rt i s) = fst s"
    by simp_all
  from Cons.IH [OF a] b show ?case by (auto simp: run_def)
qed

lemma init_inv: "sys_inv rt (0, replicate n Idle)"
  by (simp add: sys_inv_def list_all_length)

lemma returned_agree:
  assumes "sys_inv rt s" and "fst s \<noteq> 0" and "Returned b \<in> set (snd s)"
  shows "b = (fst s > 0)"
proof -
  from assms(1,3) have "thread_ok rt (Returned b)"
    by (auto simp: sys_inv_def list_all_iff)
  moreover from assms(1,2) have "win32_detect rt = Inr (fst s)" by (simp add: sys_inv_def)
  ultimately show ?thesis by simp
qed

lemma replicate_2_Idle: "replicate 2 Idle = [Idle, Idle]"
  by (simp add: numeral_2_eq_2)


section \<open>The claims\<close>

text \<open>
  C1. In each of the three decoders, \<^verbatim>\<open>get_type\<close> returns null if and only if the handle
  is empty, and \<^verbatim>\<open>get_object\<close> on the empty handle returns null for every target. The
  decoders return the descriptor that the runtime stored for the error, so the
  direction "null only for the empty handle" is stated for handles whose stored
  descriptor is not null, as it is for every handle the runtime produced: the
  accessor's result (libstdc++), the header's \<open>exceptionType\<close> (libc++), the
  descriptor addresses of the catchable types (Microsoft). The empty handle leaves the
  probe's cache as it was.
\<close>

theorem get_type_null_iff_empty:
  fixes rtA :: "'a::len word glibcxx_runtime" and rtB :: "'b::len word libcpp_runtime"
    and rtC :: "'c::len word win32_runtime"
  assumes "ptrA \<noteq> 0 \<longrightarrow> cxa_exception_type rtA ptrA \<noteq> 0"
    and "\<forall>ex. cxa_exceptions rtB (ptrB - sizeof_cxa_exception rtB) = Some ex \<longrightarrow>
           exceptionType ex \<noteq> 0"
    and "\<forall>r a ct. records rtC ptrC = Some r \<longrightarrow> catchable_types rtC a = Some ct \<longrightarrow>
           (if EH_RELATIVE_TYPEINFO rtC then pThrowImageBase (params r) else 0) + pType ct \<noteq> 0"
  shows "(glibcxx_exception_ptr_get_type rtA ptrA = 0 \<longleftrightarrow> ptrA = 0)
       \<and> (libcpp_exception_ptr_get_type rtB ptrB = Inr 0 \<longleftrightarrow> ptrB = 0)
       \<and> ((\<exists>cache'. win32_exception_ptr_get_type rtC cache ptrC = Inr (0, cache')) \<longleftrightarrow> ptrC = 0)
       \<and> glibcxx_exception_ptr_get_object rtA 0 targetA = 0
       \<and> libcpp_exception_ptr_get_object rtB 0 targetB = Inr 0
       \<and> win32_exception_ptr_get_object rtC cache 0 targetC = Inr (0, cache)
       \<and> win32_exception_ptr_get_type rtC cache 0 = Inr (0, cache)"
proof -
  have "glibcxx_exception_ptr_get_object rtA 0 targetA = 0"
    by (simp add: glibcxx_exception_ptr_get_object_def)
  moreover have "libcpp_exception_ptr_get_object rtB 0 targetB = Inr 0"
    by (simp add: libcpp_exception_ptr_get_object_def)
  moreover have "win32_exception_ptr_get_object rtC cache 0 targetC = Inr (0, cache)"
    by (simp add: win32_exception_ptr_get_object_def win32_get_record_def)
  moreover have "win32_exception_ptr_get_type rtC cache 0 = Inr (0, cache)"
    by (simp add: win32_exception_ptr_get_type_def win32_get_record_def)
  ultimately show ?thesis
    using glibcxx_get_type_null_iff [OF assms(1)] libcpp_get_type_null_iff [OF assms(2)]
      win32_get_type_null_iff [OF assms(3)]
    by blast
qed

theorem get_type_null_iff_empty_witness:
  "glibcxx_exception_ptr_get_type ex_glibcxx 0x1000 \<noteq> 0
   \<and> libcpp_exception_ptr_get_type ex_libcpp 0x1000 \<noteq> Inr 0
   \<and> win32_exception_ptr_get_type (ex_win32 False 0 0x7000 0x7100) 0 0x1000 \<noteq> Inr (0, 1)
   \<and> glibcxx_exception_ptr_get_object ex_glibcxx 0 0x400 = 0
   \<and> libcpp_exception_ptr_get_object ex_libcpp 0 0x400 = Inr 0
   \<and> win32_exception_ptr_get_object (ex_win32 False 0 0x7000 0x7100) 0 0 0x10700 = Inr (0, 0)
   \<and> win32_exception_ptr_get_type (ex_win32 False 0 0x7000 0x7100) 0 0 = Inr (0, 0)"
proof -
  have a: "(0x1000 :: 64 word) \<noteq> 0 \<longrightarrow> cxa_exception_type ex_glibcxx 0x1000 \<noteq> 0"
    by (simp add: ex_glibcxx_def)
  have b: "\<forall>ex. cxa_exceptions ex_libcpp (0x1000 - sizeof_cxa_exception ex_libcpp) = Some ex \<longrightarrow>
             exceptionType ex \<noteq> 0"
    by (simp add: ex_libcpp_def ex_header_def)
  show ?thesis
    using get_type_null_iff_empty
      [OF a b ex_win32_descriptors [of False 0 "0x7000" "0x7100" "0x1000"],
        where cache = 0 and targetA = "0x400" and targetB = "0x400" and targetC = "0x10700"]
    by auto
qed

text \<open>
  C2. Microsoft decoder, handle with a record, target not null: when the probe
  returns, the throw-info and the array are in memory and the array's
  \<open>nCatchableTypes\<close> entries address the catchable types \<open>entries\<close>,
  \<^verbatim>\<open>get_object\<close> returns the payload pointer adjusted by the displacement of the first
  entry, in array order, whose descriptor equals the target under
  \<^verbatim>\<open>std::type_info::operator==\<close>, and null when no entry does. The runtime record has
  no can-catch predicate: equality of descriptors is all that is consulted.
\<close>

theorem win32_get_object_scan:
  assumes "ptr \<noteq> 0" and "target \<noteq> 0"
    and "records rt ptr = Some r"
    and "win32_eptr_throw_info_ptr_is_encoded rt cache = Inr (encoded, cache')"
    and "info = (if encoded then DecodePointer rt (pThrowInfo (params r))
                 else pThrowInfo (params r))"
    and "base = (if EH_RELATIVE_TYPEINFO rt then pThrowImageBase (params r) else 0)"
    and "throw_infos rt info = Some ti"
    and "catchable_type_arrays rt (base + pCatchableTypeArray ti) = Some cta"
    and "nCatchableTypes cta \<le> int (length (arrayOfCatchableTypes cta))"
    and "map (\<lambda>off. catchable_types rt (base + off))
           (take (nat (nCatchableTypes cta)) (arrayOfCatchableTypes cta)) = map Some entries"
  shows "win32_exception_ptr_get_object rt cache ptr target =
           Inr (case find (\<lambda>ct. type_info_eq rt target (base + pType ct)) entries of
                  None \<Rightarrow> 0
                | Some ct \<Rightarrow> AdjustPointer rt (pExceptionObject (params r)) (thisDisplacement ct),
                cache')"
proof -
  have ti: "win32_throw_info rt cache ptr = Inr (info, cache')"
    using win32_throw_info_eq [OF assms(4) assms(3)] assms(5) by simp
  have ib: "win32_throw_image_base rt ptr = Inr base"
    using win32_throw_image_base_eq [OF assms(3)] assms(6) by simp
  have sc: "win32_scan rt base cta target (pExceptionObject (params r)) 0 =
        Inr (spec_scan rt base entries target (pExceptionObject (params r)))"
    by (rule win32_scan_all [OF assms(9) assms(10)])
  show ?thesis
    using assms(1,2,3,7,8) ti ib sc
    by (simp add: win32_exception_ptr_get_object_def win32_get_record_def load_def spec_scan_def)
qed

text \<open>
  At the handle of the \<open>Child\<close> error, the target \<open>Parent\<close> matches the second entry
  (pointer moved by 8) and an unrelated target matches none.
\<close>

theorem win32_get_object_scan_witness:
  "win32_exception_ptr_get_object (ex_win32 False 0xABCD 0x7000 0x7100) 0 0x1000 0x10700
     = Inr (0x2008, - 1)
   \<and> win32_exception_ptr_get_object (ex_win32 False 0xABCD 0x7000 0x7100) 0 0x1000 0x10680
     = Inr (0, - 1)"
proof -
  let ?rt = "ex_win32 False 0xABCD 0x7000 0x7100"
  let ?child = "\<lparr> pType = 0x600, thisDisplacement = \<lparr> mdisp = 0, pdisp = - 1, vdisp = 0 \<rparr> \<rparr>
                  :: 64 word CatchableType"
  let ?parent = "\<lparr> pType = 0x700, thisDisplacement = \<lparr> mdisp = 8, pdisp = - 1, vdisp = 0 \<rparr> \<rparr>
                  :: 64 word CatchableType"
  let ?cta = "\<lparr> nCatchableTypes = 2, arrayOfCatchableTypes = [0x200, 0x300] \<rparr>
                :: 64 word CatchableTypeArray"
  have nz: "(0x1000 :: 64 word) \<noteq> 0" "(0x10700 :: 64 word) \<noteq> 0" "(0x10680 :: 64 word) \<noteq> 0"
    by simp_all
  have r: "records ?rt 0x1000 = Some (ex_record 0x2000 0x7100)"
    by (simp add: ex_win32_def)
  have p: "win32_eptr_throw_info_ptr_is_encoded ?rt 0 = Inr (False, - 1)"
    by (simp add: ex_win32_eval)
  have i: "(0x7100 :: 64 word) =
      (if False then DecodePointer ?rt (pThrowInfo (params (ex_record 0x2000 0x7100)))
       else pThrowInfo (params (ex_record 0x2000 0x7100)))"
    by (simp add: ex_record_def)
  have b: "(0x10000 :: 64 word) =
      (if EH_RELATIVE_TYPEINFO ?rt then pThrowImageBase (params (ex_record 0x2000 0x7100)) else 0)"
    by (simp add: ex_win32_def ex_record_def)
  have t: "throw_infos ?rt 0x7100 = Some \<lparr> pCatchableTypeArray = 0x100 \<rparr>"
    by (simp add: ex_win32_def)
  have c: "catchable_type_arrays ?rt (0x10000 + pCatchableTypeArray \<lparr> pCatchableTypeArray = 0x100 \<rparr>)
             = Some ?cta"
    by (simp add: ex_win32_def)
  have n: "nCatchableTypes ?cta \<le> int (length (arrayOfCatchableTypes ?cta))"
    by simp
  have e: "map (\<lambda>off. catchable_types ?rt (0x10000 + off))
             (take (nat (nCatchableTypes ?cta)) (arrayOfCatchableTypes ?cta))
           = map Some [?child, ?parent]"
    by (simp add: ex_win32_def)
  have eq: "type_info_eq ?rt = (\<lambda>a b. a = b)"
    and adj: "AdjustPointer ?rt = (\<lambda>p pmd. p + word_of_int (mdisp pmd))"
    by (simp_all add: ex_win32_def)
  show ?thesis
    using win32_get_object_scan [OF nz(1) nz(2) r p i b t c n e]
      win32_get_object_scan [OF nz(1) nz(3) r p i b t c n e]
    by (simp add: eq adj ex_record_def)
qed

text \<open>
  The probe with neither comparison succeeding, in a build that keeps its assertions:
  the \<^verbatim>\<open>assert(value)\<close> of line 205 fails, so the process is terminated before
  anything is stored in the cache or returned.
\<close>

lemma probe_neither_asserting:
  assumes "records rt (make_exception_ptr_int rt) = Some r"
    and "GetExceptionInfo_int rt \<noteq> pThrowInfo (params r)"
    and "GetExceptionInfo_int rt \<noteq> DecodePointer rt (pThrowInfo (params r))"
    and "\<not> NDEBUG rt"
  shows "win32_eptr_throw_info_ptr_is_encoded rt 0 = Inl Abort"
  using assms by (simp add: probe_uninit detect_value)

text \<open>
  C3. In the probe, when neither comparison succeeds, the process is to be terminated
  at once, with nothing returned and nothing cached. The code states this with
  \<^verbatim>\<open>assert(value)\<close>, and misses it in a build that defines \<^verbatim>\<open>NDEBUG\<close>: there the
  assertion expands to nothing and the function runs past it. With a sentinel record
  whose stored pointer (\<open>0x1234\<close>) equals neither the throw-info address
  (\<open>0x7000\<close>) nor its decoded form, the probe stores 0 and returns false, the answer
  "not encoded", which is a guess. In this runtime the record of the \<open>Child\<close> error
  stores its throw-info pointer encoded; \<^verbatim>\<open>get_type\<close> on that handle then follows the
  stored pointer undecoded, to an address that holds no throw-info.
\<close>

theorem probe_neither_ndebug:
  "records (ex_win32 True 0xABCD 0x1234 (0x7100 XOR 0xABCD))
      (make_exception_ptr_int (ex_win32 True 0xABCD 0x1234 (0x7100 XOR 0xABCD)))
     = Some (ex_record 0x9100 0x1234)
   \<and> GetExceptionInfo_int (ex_win32 True 0xABCD 0x1234 (0x7100 XOR 0xABCD)) \<noteq> 0x1234
   \<and> GetExceptionInfo_int (ex_win32 True 0xABCD 0x1234 (0x7100 XOR 0xABCD))
        \<noteq> DecodePointer (ex_win32 True 0xABCD 0x1234 (0x7100 XOR 0xABCD)) 0x1234
   \<and> win32_eptr_throw_info_ptr_is_encoded (ex_win32 True 0xABCD 0x1234 (0x7100 XOR 0xABCD)) 0
        = Inr (False, 0)
   \<and> win32_exception_ptr_get_type (ex_win32 True 0xABCD 0x1234 (0x7100 XOR 0xABCD)) 0 0x1000
        = Inl InvalidAccess
   \<and> win32_eptr_throw_info_ptr_is_encoded (ex_win32 False 0xABCD 0x1234 (0x7100 XOR 0xABCD)) 0
        = Inl Abort"
  by (simp add: win32_exception_ptr_get_type_def ex_win32_eval)

text \<open>
  C4. In each decoder, \<^verbatim>\<open>get_object\<close> with a null target on a handle that is not empty
  returns the stored payload pointer as it is. The result is the same whatever the
  can-catch predicate or the pointer adjustment of the runtime is: neither is
  consulted. The libc++ decoder reads the header before it tests the target, and the
  Microsoft decoder reads the record, so both are taken to be in memory.
\<close>

theorem get_object_null_target:
  fixes rtA :: "'a::len word glibcxx_runtime" and rtB :: "'b::len word libcpp_runtime"
    and rtC :: "'c::len word win32_runtime"
  assumes "ptrA \<noteq> 0"
    and "ptrB \<noteq> 0" and "cxa_exceptions rtB (ptrB - sizeof_cxa_exception rtB) = Some ex"
    and "ptrC \<noteq> 0" and "records rtC ptrC = Some r"
  shows "glibcxx_exception_ptr_get_object (rtA\<lparr>do_catch := oracleA\<rparr>) ptrA 0 = ptrA
       \<and> libcpp_exception_ptr_get_object (rtB\<lparr>can_catch := oracleB\<rparr>) ptrB 0 = Inr ptrB
       \<and> win32_exception_ptr_get_object (rtC\<lparr>AdjustPointer := adjust\<rparr>) cache ptrC 0
           = Inr (pExceptionObject (params r), cache)"
  using assms
  by (simp add: glibcxx_exception_ptr_get_object_def libcpp_exception_ptr_get_object_def
      libcpp_exception_ptr_get_type_def cxxabi_get_object_def load_def
      win32_exception_ptr_get_object_def win32_get_record_def)

theorem get_object_null_target_witness:
  "glibcxx_exception_ptr_get_object
     (ex_glibcxx\<lparr>do_catch := (\<lambda>t y obj outer. (False, 0))\<rparr>) 0x1000 0 = 0x1000
   \<and> libcpp_exception_ptr_get_object
       (ex_libcpp\<lparr>can_catch := (\<lambda>t y obj. (True, obj + 8))\<rparr>) 0x1000 0 = Inr 0x1000
   \<and> win32_exception_ptr_get_object
       (ex_win32 False 0 0x7000 0x7100\<lparr>AdjustPointer := (\<lambda>p pmd. p + 8)\<rparr>) 0 0x1000 0
     = Inr (0x2000, 0)"
proof -
  have b: "cxa_exceptions ex_libcpp (0x1000 - sizeof_cxa_exception ex_libcpp) = Some ex_header"
    by (simp add: ex_libcpp_def)
  have c: "records (ex_win32 False 0 0x7000 0x7100) 0x1000 = Some (ex_record 0x2000 0x7100)"
    by (simp add: ex_win32_def)
  have nz: "(0x1000 :: 64 word) \<noteq> 0" by simp
  show ?thesis
    using get_object_null_target [OF nz nz b nz c, where rtA = ex_glibcxx and cache = 0]
    by (simp add: ex_record_def)
qed

text \<open>
  C5. Microsoft decoder, handle with a record: \<^verbatim>\<open>get_type\<close> asks the probe (which
  answers from its cache when that is set) whether the stored throw-info pointer is
  encoded, decodes it if so, reads entry 0 of the catchable-type array and returns the
  address of that entry's type descriptor. With the compiler's ordering, most-derived
  type first, entry 0 describes the dynamic type of the error, which is then what
  \<^verbatim>\<open>get_type\<close> returns.
\<close>

theorem win32_get_type_first_entry:
  assumes "ptr \<noteq> 0"
    and "records rt ptr = Some r"
    and "win32_eptr_throw_info_ptr_is_encoded rt cache = Inr (encoded, cache')"
    and "info = (if encoded then DecodePointer rt (pThrowInfo (params r))
                 else pThrowInfo (params r))"
    and "base = (if EH_RELATIVE_TYPEINFO rt then pThrowImageBase (params r) else 0)"
    and "throw_infos rt info = Some ti"
    and "catchable_type_arrays rt (base + pCatchableTypeArray ti) = Some cta"
    and "arrayOfCatchableTypes cta = off # rest"
    and "catchable_types rt (base + off) = Some ct"
  shows "win32_exception_ptr_get_type rt cache ptr = Inr (base + pType ct, cache')
       \<and> (base + pType ct = dynamic_type \<longrightarrow>
            win32_exception_ptr_get_type rt cache ptr = Inr (dynamic_type, cache'))
       \<and> (cache \<noteq> 0 \<longrightarrow> encoded = (cache > 0) \<and> cache' = cache)"
proof -
  have ti: "win32_throw_info rt cache ptr = Inr (info, cache')"
    using win32_throw_info_eq [OF assms(3) assms(2)] assms(4) by simp
  have ib: "win32_throw_image_base rt ptr = Inr base"
    using win32_throw_image_base_eq [OF assms(2)] assms(5) by simp
  have "win32_exception_ptr_get_type rt cache ptr = Inr (base + pType ct, cache')"
    using assms(1,6,7,8,9) ti ib
    by (simp add: win32_exception_ptr_get_type_def win32_get_record_def load_def index_def)
  moreover have "cache \<noteq> 0 \<longrightarrow> encoded = (cache > 0) \<and> cache' = cache"
    using assms(3) by (auto simp: probe_cached)
  ultimately show ?thesis by simp
qed

text \<open>
  A runtime that encodes the pointer, with the cache already set to 1: the stored
  pointer is decoded, and the descriptor of \<open>Child\<close> comes back.
\<close>

theorem win32_get_type_first_entry_witness:
  "win32_exception_ptr_get_type
     (ex_win32 False 0xABCD (0x7000 XOR 0xABCD) (0x7100 XOR 0xABCD)) 1 0x1000
     = Inr (0x10600, 1)"
proof -
  let ?rt = "ex_win32 False 0xABCD (0x7000 XOR 0xABCD) (0x7100 XOR 0xABCD)"
  let ?rec = "ex_record 0x2000 (0x7100 XOR 0xABCD)"
  let ?child = "\<lparr> pType = 0x600, thisDisplacement = \<lparr> mdisp = 0, pdisp = - 1, vdisp = 0 \<rparr> \<rparr>
                  :: 64 word CatchableType"
  let ?cta = "\<lparr> nCatchableTypes = 2, arrayOfCatchableTypes = [0x200, 0x300] \<rparr>
                :: 64 word CatchableTypeArray"
  have nz: "(0x1000 :: 64 word) \<noteq> 0" by simp
  have r: "records ?rt 0x1000 = Some ?rec"
    by (simp add: ex_win32_def)
  have p: "win32_eptr_throw_info_ptr_is_encoded ?rt 1 = Inr (True, 1)"
    by (simp add: win32_eptr_throw_info_ptr_is_encoded_def)
  have i: "(0x7100 :: 64 word) =
      (if True then DecodePointer ?rt (pThrowInfo (params ?rec)) else pThrowInfo (params ?rec))"
    by (simp add: ex_win32_def ex_record_def)
  have b: "(0x10000 :: 64 word) =
      (if EH_RELATIVE_TYPEINFO ?rt then pThrowImageBase (params ?rec) else 0)"
    by (simp add: ex_win32_def ex_record_def)
  have t: "throw_infos ?rt 0x7100 = Some \<lparr> pCatchableTypeArray = 0x100 \<rparr>"
    by (simp add: ex_win32_def)
  have c: "catchable_type_arrays ?rt (0x10000 + pCatchableTypeArray \<lparr> pCatchableTypeArray = 0x100 \<rparr>)
             = Some ?cta"
    by (simp add: ex_win32_def)
  have a: "arrayOfCatchableTypes ?cta = 0x200 # [0x300]"
    by simp
  have e: "catchable_types ?rt (0x10000 + 0x200) = Some ?child"
    by (simp add: ex_win32_def)
  show ?thesis
    using win32_get_type_first_entry [OF nz r p i b t c a e] by simp
qed

text \<open>
  C6. libstdc++ and libc++ decoders, handle not empty, target not null:
  \<^verbatim>\<open>get_object\<close> gives the runtime's can-catch predicate the target, the stored
  descriptor and the stored payload pointer, and returns the pointer as the predicate
  left it when the predicate says yes, null when it says no.
\<close>

theorem get_object_oracle:
  fixes rtA :: "'a::len word glibcxx_runtime" and rtB :: "'b::len word libcpp_runtime"
  assumes "ptrA \<noteq> 0" and "targetA \<noteq> 0"
    and "ptrB \<noteq> 0" and "targetB \<noteq> 0"
    and "cxa_exceptions rtB (ptrB - sizeof_cxa_exception rtB) = Some ex"
  shows "glibcxx_exception_ptr_get_object rtA ptrA targetA =
           (if fst (do_catch rtA targetA (cxa_exception_type rtA ptrA) ptrA 1)
            then snd (do_catch rtA targetA (cxa_exception_type rtA ptrA) ptrA 1) else 0)
       \<and> libcpp_exception_ptr_get_object rtB ptrB targetB =
           Inr (if fst (can_catch rtB targetB (exceptionType ex) ptrB)
                then snd (can_catch rtB targetB (exceptionType ex) ptrB) else 0)"
  using assms
  by (simp add: glibcxx_exception_ptr_get_object_def libcpp_exception_ptr_get_object_def
      libcpp_exception_ptr_get_type_def cxxabi_get_object_def load_def split: prod.splits)

theorem get_object_oracle_witness:
  "glibcxx_exception_ptr_get_object ex_glibcxx 0x1000 0x400 = 0x1008
   \<and> libcpp_exception_ptr_get_object ex_libcpp 0x1000 0x300 = Inr 0"
proof -
  have b: "cxa_exceptions ex_libcpp (0x1000 - sizeof_cxa_exception ex_libcpp) = Some ex_header"
    by (simp add: ex_libcpp_def)
  have nz: "(0x1000 :: 64 word) \<noteq> 0" "(0x400 :: 64 word) \<noteq> 0" "(0x300 :: 64 word) \<noteq> 0"
    by simp_all
  show ?thesis
    using get_object_oracle [OF nz(1) nz(2) nz(1) nz(3) b, where rtA = ex_glibcxx]
    by (simp add: ex_glibcxx_def ex_libcpp_def ex_header_def)
qed

text \<open>
  C7. The probe's cache, once set, stays as it is. Sequentially: called with a cache
  that is not 0, the probe returns the sign of the stored value and the stored value
  itself, whatever the detection would compute in the runtime at hand (\<open>rt'\<close> is any
  runtime); a thread that starts a call then returns in its first step. Under racing
  first calls: \<open>n\<close> threads start with the cache at 0 and step in any order
  \<open>sched1\<close>; if the cache is set then, any further steps \<open>sched2\<close> leave it at
  that value, every thread that has returned has returned its sign, and every thread
  that is still about to store, having loaded 0 earlier, stores that same value.
\<close>

theorem probe_cache_settles:
  fixes rt :: "'w::len word win32_runtime" and rt' :: "'v::len word win32_runtime"
  assumes "s1 = run rt sched1 (0, replicate n Idle)" and "s2 = run rt sched2 s1"
    and "fst s1 \<noteq> 0"
  shows "fst s2 = fst s1
       \<and> (\<forall>b. Returned b \<in> set (snd s2) \<longrightarrow> b = (fst s1 > 0))
       \<and> (\<forall>v. Storing v \<in> set (snd s2) \<longrightarrow> v = fst s1)
       \<and> win32_eptr_throw_info_ptr_is_encoded rt' (fst s1) = Inr (fst s1 > 0, fst s1)
       \<and> thread_step rt' (fst s1, Idle) = (fst s1, Returned (fst s1 > 0))"
proof -
  have i1: "sys_inv rt s1" using run_inv [OF init_inv] assms(1) by simp
  have i2: "sys_inv rt s2" and eq: "fst s2 = fst s1"
    using run_inv [OF i1] assms(2,3) by simp_all
  have d: "win32_detect rt = Inr (fst s1)" using i1 assms(3) by (simp add: sys_inv_def)
  have "b = (fst s1 > 0)" if "Returned b \<in> set (snd s2)" for b
    using returned_agree [OF i2 _ that] eq assms(3) by simp
  moreover have "v = fst s1" if "Storing v \<in> set (snd s2)" for v
  proof -
    from i2 that have "thread_ok rt (Storing v)" by (auto simp: sys_inv_def list_all_iff)
    with d show ?thesis by simp
  qed
  moreover have "win32_eptr_throw_info_ptr_is_encoded rt' (fst s1) = Inr (fst s1 > 0, fst s1)"
    using assms(3) by (simp add: win32_eptr_throw_info_ptr_is_encoded_def Let_def)
  moreover have "thread_step rt' (fst s1, Idle) = (fst s1, Returned (fst s1 > 0))"
    using assms(3) by simp
  ultimately show ?thesis using eq by blast
qed

text \<open>
  Two threads race in a runtime that encodes the pointer: both load 0, both detect,
  thread 0 stores 1 and returns while thread 1 is still about to store. Thread 1 then
  stores, thread 0 calls again and returns from the cache: the cache is still 1.
\<close>

theorem probe_cache_settles_witness:
  "run (ex_win32 False 0xABCD (0x7000 XOR 0xABCD) 0x7100) [0, 1, 0, 1, 0] (0, replicate 2 Idle)
     = (1, [Returned True, Storing 1])
   \<and> fst (run (ex_win32 False 0xABCD (0x7000 XOR 0xABCD) 0x7100) [1, 0, 0]
            (1, [Returned True, Storing 1])) = 1
   \<and> win32_eptr_throw_info_ptr_is_encoded (ex_win32 True 0 0 0) 1 = Inr (True, 1)"
proof -
  let ?rt = "ex_win32 False 0xABCD (0x7000 XOR 0xABCD) 0x7100"
  have s1: "run ?rt [0, 1, 0, 1, 0] (0, replicate 2 Idle) = (1, [Returned True, Storing 1])"
    by (simp add: replicate_2_Idle run_def sys_step_def ex_win32_eval)
  have nz: "fst ((1, [Returned True, Storing 1]) :: int \<times> thread list) \<noteq> 0" by simp
  note t = probe_cache_settles [OF s1 [symmetric] refl nz, where ?sched2.0 = "[1, 0, 0]"
      and rt' = "ex_win32 True 0 0 0"]
  from t have a: "fst (run ?rt [1, 0, 0] (1, [Returned True, Storing 1])) = 1"
    by simp
  from t have b: "win32_eptr_throw_info_ptr_is_encoded (ex_win32 True 0 0 0) 1 = Inr (True, 1)"
    by simp
  from s1 a b show ?thesis by simp
qed

text \<open>
  C8. Repeated calls return equal results. The libstdc++ and libc++ decoders keep no
  state: each call is a function of the runtime, the handle and the target. The
  Microsoft decoder keeps the probe's cache, which a call may set. In every sequence
  of calls that runs through, from any cache value, two calls with the same handle
  and the same target have returned the same result; and each call of the sequence,
  made once more after it, returns, with the result it returned before.
\<close>

theorem repeated_calls_equal:
  fixes rtA :: "'a::len word glibcxx_runtime" and rtB :: "'b::len word libcpp_runtime"
    and rtC :: "'c::len word win32_runtime"
  assumes "libcpp_calls rtB callsB = Inr resultsB"
    and "win32_calls rtC cache callsC = Inr (resultsC, cache')"
  shows "(\<forall>i j. i < length callsA \<and> j < length callsA \<and> callsA ! i = callsA ! j \<longrightarrow>
            glibcxx_calls rtA callsA ! i = glibcxx_calls rtA callsA ! j)
       \<and> (\<forall>i j. i < length callsB \<and> j < length callsB \<and> callsB ! i = callsB ! j \<longrightarrow>
            resultsB ! i = resultsB ! j)
       \<and> (\<forall>i j. i < length callsC \<and> j < length callsC \<and> callsC ! i = callsC ! j \<longrightarrow>
            resultsC ! i = resultsC ! j)
       \<and> (\<forall>i < length callsC.
            returned (win32_call rtC cache' (callsC ! i)) = Inr (resultsC ! i))"
proof -
  have "glibcxx_calls rtA callsA ! i = glibcxx_calls rtA callsA ! j"
    if "i < length callsA" "j < length callsA" "callsA ! i = callsA ! j" for i j
    using that glibcxx_calls_results [of rtA callsA] by simp
  moreover have "resultsB ! i = resultsB ! j"
    if "i < length callsB" "j < length callsB" "callsB ! i = callsB ! j" for i j
  proof -
    from libcpp_calls_results [OF assms(1)]
    have all: "\<forall>k < length callsB. libcpp_call rtB (callsB ! k) = Inr (resultsB ! k)"
      by blast
    from all that(1) have i: "libcpp_call rtB (callsB ! i) = Inr (resultsB ! i)" by blast
    from all that(2) have j: "libcpp_call rtB (callsB ! j) = Inr (resultsB ! j)" by blast
    from i j that(3) show ?thesis by simp
  qed
  moreover have allC:
    "\<forall>k < length callsC. returned (win32_call rtC cache (callsC ! k)) = Inr (resultsC ! k)"
    using win32_calls_results [OF assms(2)] by blast
  moreover have "resultsC ! i = resultsC ! j"
    if "i < length callsC" "j < length callsC" "callsC ! i = callsC ! j" for i j
  proof -
    from allC that(1) have i: "returned (win32_call rtC cache (callsC ! i)) = Inr (resultsC ! i)"
      by blast
    from allC that(2) have j: "returned (win32_call rtC cache (callsC ! j)) = Inr (resultsC ! j)"
      by blast
    from i j that(3) show ?thesis by simp
  qed
  moreover have "returned (win32_call rtC cache' (callsC ! i)) = Inr (resultsC ! i)"
    if "i < length callsC" for i
  proof -
    from allC that
    have "returned (win32_call rtC cache (callsC ! i)) = Inr (resultsC ! i)" by blast
    with call_later_value [OF calls_move_later [OF assms(2)], of "callsC ! i"]
    show ?thesis by simp
  qed
  ultimately show ?thesis by blast
qed

text \<open>
  In a runtime that encodes the pointer, the first call detects and sets the cache,
  the later ones answer from it: the results repeat, also after the sequence.
\<close>

theorem repeated_calls_equal_witness:
  "win32_calls (ex_win32 False 0xABCD (0x7000 XOR 0xABCD) (0x7100 XOR 0xABCD)) 0
     [GetType 0x1000, GetObject 0x1000 0x10700, GetType 0x1000, GetObject 0x1000 0x10700]
   = Inr ([0x10600, 0x2008, 0x10600, 0x2008], 1)
   \<and> returned (win32_call (ex_win32 False 0xABCD (0x7000 XOR 0xABCD) (0x7100 XOR 0xABCD)) 1
        (GetObject 0x1000 0x10700)) = Inr 0x2008
   \<and> returned (win32_call (ex_win32 False 0xABCD (0x7000 XOR 0xABCD) (0x7100 XOR 0xABCD)) 1
        (GetType 0x1000)) = Inr 0x10600
   \<and> libcpp_calls ex_libcpp [GetType 0x1000, GetObject 0x1000 0x400, GetType 0x1000]
       = Inr [0x500, 0x1008, 0x500]
   \<and> glibcxx_calls ex_glibcxx [GetType 0x1000, GetObject 0x1000 0x400, GetType 0x1000] ! 0
       = glibcxx_calls ex_glibcxx [GetType 0x1000, GetObject 0x1000 0x400, GetType 0x1000] ! 2"
proof -
  let ?rt = "ex_win32 False 0xABCD (0x7000 XOR 0xABCD) (0x7100 XOR 0xABCD)"
  let ?callsA = "[GetType 0x1000, GetObject 0x1000 0x400, GetType 0x1000] :: 64 word call list"
  let ?callsC = "[GetType 0x1000, GetObject 0x1000 0x10700, GetType 0x1000,
                  GetObject 0x1000 0x10700] :: 64 word call list"
  have cC: "win32_calls ?rt 0 ?callsC = Inr ([0x10600, 0x2008, 0x10600, 0x2008], 1)"
    by (simp add: win32_exception_ptr_get_type_def win32_exception_ptr_get_object_def
        ex_win32_eval)
  have cB: "libcpp_calls ex_libcpp ?callsA = Inr [0x500, 0x1008, 0x500]"
    by (simp add: libcpp_exception_ptr_get_type_def libcpp_exception_ptr_get_object_def
        cxxabi_get_object_def load_def ex_libcpp_def ex_header_def)
  note t = repeated_calls_equal [OF cB cC, where rtA = ex_glibcxx and callsA = ?callsA]
  from t have c: "\<forall>i < 4. returned (win32_call ?rt 1 (?callsC ! i))
      = Inr ([0x10600, 0x2008, 0x10600, 0x2008] ! i)"
    by simp
  from c [rule_format, of 0] c [rule_format, of 1]
  have c01: "returned (win32_call ?rt 1 (GetType 0x1000)) = Inr 0x10600"
    "returned (win32_call ?rt 1 (GetObject 0x1000 0x10700)) = Inr 0x2008"
    by simp_all
  from t have "\<forall>i j. i < length ?callsA \<and> j < length ?callsA \<and> ?callsA ! i = ?callsA ! j \<longrightarrow>
            glibcxx_calls ex_glibcxx ?callsA ! i = glibcxx_calls ex_glibcxx ?callsA ! j"
    by blast
  from this [rule_format, of 0 2]
  have a: "glibcxx_calls ex_glibcxx ?callsA ! 0 = glibcxx_calls ex_glibcxx ?callsA ! 2"
    by simp
  show ?thesis using cC cB c01 a by simp
qed

text \<open>
  C9. Microsoft decoder, handle with a record, null target: \<^verbatim>\<open>get_object\<close> returns the
  record's payload pointer and leaves the cache as it was. The result is the same
  whatever the probe reads (the \<^verbatim>\<open>NDEBUG\<close> setting, \<open>DecodePointer\<close>, the throw-info
  address of the sentinel, the sentinel's handle) and whatever throw-infos are in
  memory: the call returns also where the probe would terminate the process.
\<close>

theorem win32_null_target_skips_probe:
  assumes "ptr \<noteq> 0" and "records rt ptr = Some r"
  shows "win32_exception_ptr_get_object
           (rt\<lparr>NDEBUG := ndebug, DecodePointer := decode, GetExceptionInfo_int := info,
               make_exception_ptr_int := sentinel, throw_infos := tis\<rparr>) cache ptr 0
         = Inr (pExceptionObject (params r), cache)"
  using assms
  by (simp add: win32_exception_ptr_get_object_def win32_get_record_def load_def)

text \<open>
  In a runtime where the probe aborts, the null target still gets the payload pointer,
  while a target that is not null runs into the abort.
\<close>

theorem win32_null_target_skips_probe_witness:
  "win32_eptr_throw_info_ptr_is_encoded (ex_win32 False 0xABCD 0x1234 0x7100) 0 = Inl Abort
   \<and> win32_exception_ptr_get_object (ex_win32 False 0xABCD 0x1234 0x7100) 0 0x1000 0
       = Inr (0x2000, 0)
   \<and> win32_exception_ptr_get_object (ex_win32 False 0xABCD 0x1234 0x7100) 0 0x1000 0x10600
       = Inl Abort"
proof -
  let ?rt = "ex_win32 False 0xABCD 0x1234 0x7100"
  have p: "win32_eptr_throw_info_ptr_is_encoded ?rt 0 = Inl Abort"
    by (simp add: ex_win32_eval)
  have r: "records ?rt 0x1000 = Some (ex_record 0x2000 0x7100)"
    by (simp add: ex_win32_def)
  have nz: "(0x1000 :: 64 word) \<noteq> 0" by simp
  have t: "win32_exception_ptr_get_object ?rt 0 0x1000 0x10600 = Inl Abort"
    by (simp add: win32_exception_ptr_get_object_def ex_win32_eval)
  have same: "?rt\<lparr>NDEBUG := False, DecodePointer := (\<lambda>p. p XOR 0xABCD),
                  GetExceptionInfo_int := 0x7000, make_exception_ptr_int := 0x9000,
                  throw_infos := throw_infos ?rt\<rparr> = ?rt"
    by (simp add: ex_win32_def)
  show ?thesis
    using win32_null_target_skips_probe [OF nz r, where ndebug = False
        and decode = "\<lambda>p. p XOR 0xABCD" and info = "0x7000" and sentinel = "0x9000"
        and tis = "throw_infos ?rt" and cache = 0] p t
    by (simp add: same ex_record_def)
qed

text \<open>
  C10. In the probe, with the cache uninitialised, when the stored throw-info pointer
  equals both the compiler's throw-info address and its decoded form, the probe
  returns true and stores 1: the comparison with the decoded pointer is made second
  and overwrites the outcome of the first.
\<close>

theorem probe_both_encoded:
  assumes "records rt (make_exception_ptr_int rt) = Some r"
    and "GetExceptionInfo_int rt = pThrowInfo (params r)"
    and "GetExceptionInfo_int rt = DecodePointer rt (pThrowInfo (params r))"
  shows "win32_eptr_throw_info_ptr_is_encoded rt 0 = Inr (True, 1)"
  using assms by (simp add: probe_uninit detect_value)

theorem probe_both_encoded_witness:
  "win32_eptr_throw_info_ptr_is_encoded (ex_win32 False 0 0x7000 0x7100) 0 = Inr (True, 1)"
proof -
  let ?rt = "ex_win32 False 0 0x7000 0x7100"
  have r: "records ?rt (make_exception_ptr_int ?rt) = Some (ex_record 0x9100 0x7000)"
    by (simp add: ex_win32_def)
  have p: "GetExceptionInfo_int ?rt = pThrowInfo (params (ex_record 0x9100 0x7000))"
    by (simp add: ex_win32_def ex_record_def)
  have e: "GetExceptionInfo_int ?rt
             = DecodePointer ?rt (pThrowInfo (params (ex_record 0x9100 0x7000)))"
    by (simp add: ex_win32_def ex_record_def)
  from probe_both_encoded [OF r p e] show ?thesis .
qed

end
